theory Spec2Isabelle
  imports Complex_Main
begin

section \<open>JavaScript values as the relay sees them\<close>

text \<open>
  \<^verbatim>\<open>server.js\<close> reads \<^verbatim>\<open>req.body\<close>, the value that \<^verbatim>\<open>bodyParser.json()\<close> decoded,
  and tests two of its properties for truthiness. The values are those of JavaScript:
  a decoded JSON document, plus \<^verbatim>\<open>undefined\<close> for a property that is not there.
  A number is an IEEE double; only whether it is zero or NaN matters to the code, so a
  finite double is given by its rational value (both zeros are \<open>Finite 0\<close>).
\<close>

datatype number = NaN | Infinity bool | Finite rat

datatype js =
    JUndefined
  | JNull
  | JBool bool
  | JNum number
  | JStr string
  | JArr "js list"
  | JObj "(string \<times> js) list"

text \<open>ToBoolean, the test behind \<^verbatim>\<open>!prompt\<close> and \<^verbatim>\<open>req.body.history || []\<close>.\<close>

fun truthy :: "js \<Rightarrow> bool" where
  "truthy JUndefined = False"
| "truthy JNull = False"
| "truthy (JBool b) = b"
| "truthy (JNum n) = (n \<noteq> NaN \<and> n \<noteq> Finite 0)"
| "truthy (JStr s) = (s \<noteq> [])"
| "truthy (JArr xs) = True"
| "truthy (JObj ps) = True"

datatype error = TypeError

text \<open>
  Property access \<^verbatim>\<open>v.k\<close> for the two names the handler reads, \<^verbatim>\<open>prompt\<close> and
  \<^verbatim>\<open>history\<close>, which no built-in prototype defines: reading them from \<^verbatim>\<open>undefined\<close> or
  \<^verbatim>\<open>null\<close> throws a TypeError, an object gives its own property or \<^verbatim>\<open>undefined\<close>, and every
  other value gives \<^verbatim>\<open>undefined\<close>. The list of an object holds its own properties.
\<close>

fun property :: "js \<Rightarrow> string \<Rightarrow> error + js" where
  "property JUndefined k = Inl TypeError"
| "property JNull k = Inl TypeError"
| "property (JObj ps) k = Inr (case map_of ps k of None \<Rightarrow> JUndefined | Some v \<Rightarrow> v)"
| "property v k = Inr JUndefined"

section \<open>Process-wide constants\<close>

record generation_config =
  temperature :: rat
  topP :: rat
  topK :: nat
  responseMimeType :: string

definition PORT :: nat where
  "PORT = 8080"

definition generationConfig :: generation_config where
  "generationConfig =
     \<lparr>temperature = 0, topP = 95 / 100, topK = 64, responseMimeType = ''text/plain''\<rparr>"

text \<open>The client object \<^verbatim>\<open>genai\<close>, built once from the API key.\<close>

record server =
  genai :: string

section \<open>The model provider\<close>

text \<open>
  Everything \<^verbatim>\<open>run\<close> hands to the \<^verbatim>\<open>@google/generative-ai\<close> client inside its
  \<^verbatim>\<open>try\<close> block: the client (its key), the arguments of \<^verbatim>\<open>getGenerativeModel\<close>,
  the arguments of \<^verbatim>\<open>startChat\<close> and the argument of \<^verbatim>\<open>sendMessage\<close>.
\<close>

record call =
  client :: string
  model :: string
  systemInstruction :: string
  chatConfig :: generation_config
  history :: js
  message :: js

text \<open>
  The client library is not part of the repository, so it is a parameter: a provider
  answers a call in a state of the outside world \<open>'w\<close> and leaves a new one. The sequence
  \<^verbatim>\<open>getGenerativeModel\<close>, \<^verbatim>\<open>startChat\<close>, \<^verbatim>\<open>await sendMessage\<close>, \<^verbatim>\<open>result.response.text()\<close>
  either yields the text, or throws (or rejects) with some value \<open>'e\<close> at one of the four
  steps, or never settles: the code sets no timeout of its own.
\<close>

datatype 'e outcome = Returns string | Throws 'e | Pending

type_synonym ('w, 'e) provider = "call \<Rightarrow> 'w \<Rightarrow> 'e outcome \<times> 'w"

datatype 'e event =
    ProviderCall call
  | ConsoleError string 'e

text \<open>
  The call that \<^verbatim>\<open>run\<close> assembles in lines 55 to 67: the model name and the system
  instruction given to \<^verbatim>\<open>getGenerativeModel\<close>, the object \<^verbatim>\<open>generationConfig\<close> and the
  history given to \<^verbatim>\<open>startChat\<close>, the prompt given to \<^verbatim>\<open>sendMessage\<close>.
\<close>

definition chatSession :: "server \<Rightarrow> js \<Rightarrow> js \<Rightarrow> call" where
  "chatSession srv prompt hist =
     \<lparr>client = genai srv,
      model = ''gemini-1.5-flash'',
      systemInstruction = ''Make every response very short,maximum 150 characters length'',
      chatConfig = generationConfig,
      history = hist,
      message = prompt\<rparr>"

section \<open>\<^verbatim>\<open>run\<close>\<close>

record run_result =
  Response :: bool
  text' :: "string option"

text \<open>
  \<^verbatim>\<open>run(prompt, history)\<close>: the result object (\<open>None\<close> when the awaited call never
  settles), the events in the order they happen, and the world after.
\<close>

definition run ::
  "('w, 'e) provider \<Rightarrow> server \<Rightarrow> js \<Rightarrow> js \<Rightarrow> 'w \<Rightarrow> run_result option \<times> 'e event list \<times> 'w"
where
  "run provider srv prompt hist w =
     (let c = chatSession srv prompt hist
      in case provider c w of
           (Returns t, w') \<Rightarrow>
             (Some \<lparr>Response = True, text' = Some t\<rparr>, [ProviderCall c], w')
         | (Throws err, w') \<Rightarrow>
             (Some \<lparr>Response = False, text' = None\<rparr>,
              [ProviderCall c, ConsoleError ''Error during AI model interaction:'' err], w')
         | (Pending, w') \<Rightarrow> (None, [ProviderCall c], w'))"

section \<open>The route handler\<close>

record req =
  body :: js

record response =
  status :: nat
  send :: string

text \<open>
  How a call of the handler ends: it sent a response, it threw before sending one, or
  it is still waiting for the provider.
\<close>

datatype completion = Responded response | Rejected error | Suspended

text \<open>
  The handler of \<^verbatim>\<open>app.post("/")\<close>. \<^verbatim>\<open>res.send\<close> of a value that is not there sends
  an empty body.
\<close>

definition handleChatRequest ::
  "('w, 'e) provider \<Rightarrow> server \<Rightarrow> req \<Rightarrow> 'w \<Rightarrow> completion \<times> 'e event list \<times> 'w"
where
  "handleChatRequest provider srv rq w =
     (case property (body rq) ''prompt'' of
        Inl err \<Rightarrow> (Rejected err, [], w)
      | Inr prompt \<Rightarrow>
          (case property (body rq) ''history'' of
             Inl err \<Rightarrow> (Rejected err, [], w)
           | Inr h \<Rightarrow>
               (let hist = (if truthy h then h else JArr []) in
                if \<not> truthy prompt
                then (Responded \<lparr>status = 400, send = ''Prompt is required.''\<rparr>, [], w)
                else
                  (case run provider srv prompt hist w of
                     (None, evs, w') \<Rightarrow> (Suspended, evs, w')
                   | (Some r, evs, w') \<Rightarrow>
                       if Response r
                       then (Responded \<lparr>status = 200,
                                        send = (case text' r of Some t \<Rightarrow> t | None \<Rightarrow> [])\<rparr>,
                             evs, w')
                       else (Responded
                               \<lparr>status = 500,
                                send = ''Error processing request. Check server logs for details.''\<rparr>,
                             evs, w')))))"

text \<open>The provider calls among the events of a request.\<close>

fun calls :: "'e event list \<Rightarrow> call list" where
  "calls [] = []"
| "calls (ProviderCall c # evs) = c # calls evs"
| "calls (ConsoleError m e # evs) = calls evs"

section \<open>Process startup\<close>

text \<open>
  What the module does when it is loaded (lines 28 to 37 and 97 to 99), as the actions
  it performs in order and the client it ends up with. \<^verbatim>\<open>process.env\<close> maps names to
  strings; \<^verbatim>\<open>!apiKey\<close> holds for a variable that is not set and for one set to the empty
  string. \<^verbatim>\<open>process.exit(1)\<close> ends the process, so nothing after it runs.
\<close>

datatype boot = StderrLine string | StdoutLine string | ProcessExit nat | AppListen nat

definition startup :: "(string \<rightharpoonup> string) \<Rightarrow> boot list \<times> server option" where
  "startup env =
     (let refuse =
            ([StderrLine ''Error: AI_KEY environment variable is not set.'',
              StderrLine ''Please set the AI_KEY environment variable with your Google AI API key.'',
              ProcessExit 1], None)
      in case env ''AI_KEY'' of
           None \<Rightarrow> refuse
         | Some apiKey \<Rightarrow>
             if apiKey = [] then refuse
             else ([AppListen PORT, StdoutLine ''Server is running on http://localhost:8080''],
                   Some \<lparr>genai = apiKey\<rparr>))"

section \<open>Vocabulary of the specification and stub providers\<close>

text \<open>\<^verbatim>\<open>typeof v === "string"\<close>, for the specification's "not a string".\<close>

fun isString :: "js \<Rightarrow> bool" where
  "isString (JStr s) = True"
| "isString v = False"

text \<open>
  The specification's test scenarios use stubbed providers: one that returns a fixed
  text, one that throws. The third refuses a history that is not an array, as a client
  that iterates over the history does; the fourth counts the calls it receives in the
  world state and never settles after the limit given.
\<close>

definition stub_returning :: "string \<Rightarrow> (unit, string) provider" where
  "stub_returning t c w = (Returns t, w)"

definition stub_throwing :: "string \<Rightarrow> (unit, string) provider" where
  "stub_throwing e c w = (Throws e, w)"

definition stub_strict :: "(unit, string) provider" where
  "stub_strict c w =
     (case history c of
        JArr xs \<Rightarrow> (Returns ''ok'', w)
      | _ \<Rightarrow> (Throws ''history is not an array'', w))"

definition stub_counting :: "string \<Rightarrow> (nat, string) provider" where
  "stub_counting t c n = (Returns t, Suc n)"

definition stub_pending :: "(unit, string) provider" where
  "stub_pending c w = (Pending, w)"

section \<open>Basic facts\<close>

lemma falsy_iff:
  "(\<not> truthy v) =
     (v = JUndefined \<or> v = JNull \<or> v = JBool False \<or> v = JNum NaN \<or> v = JNum (Finite 0)
      \<or> v = JStr [])"
  by (cases v) auto

lemma property_history:
  "property v ''prompt'' = Inr p \<Longrightarrow> \<exists>h. property v ''history'' = Inr h"
  by (cases v) auto

lemma run_Returns:
  "provider (chatSession srv p h) w = (Returns t, w') \<Longrightarrow>
   run provider srv p h w =
     (Some \<lparr>Response = True, text' = Some t\<rparr>, [ProviderCall (chatSession srv p h)], w')"
  by (simp add: run_def)

lemma run_Throws:
  "provider (chatSession srv p h) w = (Throws err, w') \<Longrightarrow>
   run provider srv p h w =
     (Some \<lparr>Response = False, text' = None\<rparr>,
      [ProviderCall (chatSession srv p h),
       ConsoleError ''Error during AI model interaction:'' err], w')"
  by (simp add: run_def)

lemma run_Pending:
  "provider (chatSession srv p h) w = (Pending, w') \<Longrightarrow>
   run provider srv p h w = (None, [ProviderCall (chatSession srv p h)], w')"
  by (simp add: run_def)

lemma calls_run: "calls (fst (snd (run provider srv p h w))) = [chatSession srv p h]"
  by (simp add: run_def Let_def split: prod.splits outcome.splits)

lemma handle_falsy:
  "property (body rq) ''prompt'' = Inr p \<Longrightarrow> \<not> truthy p \<Longrightarrow>
   handleChatRequest provider srv rq w =
     (Responded \<lparr>status = 400, send = ''Prompt is required.''\<rparr>, [], w)"
  using property_history [of "body rq" p]
  by (auto simp: handleChatRequest_def)

lemma handle_truthy:
  "property (body rq) ''prompt'' = Inr p \<Longrightarrow> truthy p \<Longrightarrow>
   property (body rq) ''history'' = Inr h \<Longrightarrow>
   handleChatRequest provider srv rq w =
     (case run provider srv p (if truthy h then h else JArr []) w of
        (None, evs, w') \<Rightarrow> (Suspended, evs, w')
      | (Some r, evs, w') \<Rightarrow>
          if Response r
          then (Responded \<lparr>status = 200,
                           send = (case text' r of Some t \<Rightarrow> t | None \<Rightarrow> [])\<rparr>, evs, w')
          else (Responded
                  \<lparr>status = 500,
                   send = ''Error processing request. Check server logs for details.''\<rparr>,
                evs, w'))"
  by (simp add: handleChatRequest_def)

lemma handle_Returns:
  "property (body rq) ''prompt'' = Inr p \<Longrightarrow> truthy p \<Longrightarrow>
   property (body rq) ''history'' = Inr h \<Longrightarrow>
   provider (chatSession srv p (if truthy h then h else JArr [])) w = (Returns t, w') \<Longrightarrow>
   handleChatRequest provider srv rq w =
     (Responded \<lparr>status = 200, send = t\<rparr>,
      [ProviderCall (chatSession srv p (if truthy h then h else JArr []))], w')"
  by (simp add: handle_truthy run_Returns)

lemma handle_Throws:
  "property (body rq) ''prompt'' = Inr p \<Longrightarrow> truthy p \<Longrightarrow>
   property (body rq) ''history'' = Inr h \<Longrightarrow>
   provider (chatSession srv p (if truthy h then h else JArr [])) w = (Throws err, w') \<Longrightarrow>
   handleChatRequest provider srv rq w =
     (Responded \<lparr>status = 500,
                 send = ''Error processing request. Check server logs for details.''\<rparr>,
      [ProviderCall (chatSession srv p (if truthy h then h else JArr [])),
       ConsoleError ''Error during AI model interaction:'' err], w')"
  by (simp add: handle_truthy run_Throws)

lemma handle_Pending:
  "property (body rq) ''prompt'' = Inr p \<Longrightarrow> truthy p \<Longrightarrow>
   property (body rq) ''history'' = Inr h \<Longrightarrow>
   provider (chatSession srv p (if truthy h then h else JArr [])) w = (Pending, w') \<Longrightarrow>
   handleChatRequest provider srv rq w =
     (Suspended, [ProviderCall (chatSession srv p (if truthy h then h else JArr []))], w')"
  by (simp add: handle_truthy run_Pending)

text \<open>
  The two ways in which the handler sends no response: a body that was never decoded
  makes the read of \<^verbatim>\<open>req.body.prompt\<close> throw, and a provider call that never settles
  leaves the handler waiting.
\<close>

lemma undefined_body_rejects:
  "handleChatRequest provider srv \<lparr>body = JUndefined\<rparr> w = (Rejected TypeError, [], w)"
  by (simp add: handleChatRequest_def)

lemma pending_provider_suspends:
  "handleChatRequest stub_pending \<lparr>genai = ''key''\<rparr> \<lparr>body = JObj [(''prompt'', JStr ''Hi'')]\<rparr> () =
     (Suspended, [ProviderCall (chatSession \<lparr>genai = ''key''\<rparr> (JStr ''Hi'') (JArr []))], ())"
  by (simp add: handleChatRequest_def run_def stub_pending_def)

section \<open>Validation of the prompt\<close>

text \<open>
  C1, as the specification states it, fails: a prompt that is not a string but is truthy
  (here the number 42) passes the test \<^verbatim>\<open>!prompt\<close>, the provider is called and its text
  comes back with status 200.
\<close>

theorem C1_non_string_prompt_counterexample:
  "\<not> isString (JNum (Finite 42)) \<and>
   handleChatRequest (stub_returning ''ok'') \<lparr>genai = ''key''\<rparr>
       \<lparr>body = JObj [(''prompt'', JNum (Finite 42))]\<rparr> () =
     (Responded \<lparr>status = 200, send = ''ok''\<rparr>,
      [ProviderCall (chatSession \<lparr>genai = ''key''\<rparr> (JNum (Finite 42)) (JArr []))], ())"
  by (simp add: handleChatRequest_def run_def stub_returning_def)

text \<open>
  C1, amended: when the prompt read from the body is falsy (it is absent, \<^verbatim>\<open>null\<close>,
  \<^verbatim>\<open>false\<close>, zero, NaN or the empty string), the handler answers 400 with the body
  "Prompt is required.", no event happens (no provider call) and the world is untouched.
  Any other prompt, a string or not, is not answered with 400: it is sent to the provider
  in exactly one call.
\<close>

theorem C1_falsy_prompt_rejected:
  assumes "property (body rq) ''prompt'' = Inr p"
  shows "(\<not> truthy p \<longrightarrow>
            handleChatRequest provider srv rq w =
              (Responded \<lparr>status = 400, send = ''Prompt is required.''\<rparr>, [], w)) \<and>
         (truthy p \<longrightarrow>
            (\<forall>resp. fst (handleChatRequest provider srv rq w) = Responded resp \<longrightarrow>
                    status resp \<noteq> 400) \<and>
            (\<exists>c. calls (fst (snd (handleChatRequest provider srv rq w))) = [c] \<and>
                 message c = p))"
proof (intro conjI impI)
  assume "\<not> truthy p"
  with assms show "handleChatRequest provider srv rq w =
      (Responded \<lparr>status = 400, send = ''Prompt is required.''\<rparr>, [], w)"
    by (rule handle_falsy)
next
  assume t: "truthy p"
  from assms obtain h where h: "property (body rq) ''history'' = Inr h"
    using property_history by blast
  show "\<forall>resp. fst (handleChatRequest provider srv rq w) = Responded resp \<longrightarrow>
      status resp \<noteq> 400"
    using assms t h
    by (auto simp: handle_truthy run_def Let_def split: prod.splits outcome.splits)
  show "\<exists>c. calls (fst (snd (handleChatRequest provider srv rq w))) = [c] \<and> message c = p"
    using assms t h
    by (auto simp: handle_truthy run_def Let_def chatSession_def split: prod.splits outcome.splits)
qed

theorem C1_falsy_prompt_rejected_witness:
  "handleChatRequest (stub_returning ''Hi there!'')
       \<lparr>genai = ''key''\<rparr> \<lparr>body = JObj [(''history'', JArr [])]\<rparr> () =
     (Responded \<lparr>status = 400, send = ''Prompt is required.''\<rparr>, [], ()) \<and>
   calls (fst (snd (handleChatRequest (stub_returning ''Hi there!'')
       \<lparr>genai = ''key''\<rparr> \<lparr>body = JObj [(''prompt'', JStr ''Hello'')]\<rparr> ()))) =
     [chatSession \<lparr>genai = ''key''\<rparr> (JStr ''Hello'') (JArr [])]"
proof -
  have a: "property (body \<lparr>body = JObj [(''history'', JArr [])]\<rparr>) ''prompt'' = Inr JUndefined"
    by simp
  have b: "property (body \<lparr>body = JObj [(''prompt'', JStr ''Hello'')]\<rparr>) ''prompt''
      = Inr (JStr ''Hello'')"
    by simp
  show ?thesis
    using C1_falsy_prompt_rejected [OF a, of "stub_returning ''Hi there!''" "\<lparr>genai = ''key''\<rparr>" "()"]
      C1_falsy_prompt_rejected [OF b, of "stub_returning ''Hi there!''" "\<lparr>genai = ''key''\<rparr>" "()"]
    by (simp add: handleChatRequest_def run_def stub_returning_def)
qed

section \<open>Success and failure of the provider call\<close>

text \<open>
  C2: when the prompt is accepted and the provider returns the text \<open>t\<close> for the call the
  handler makes, the handler answers 200 and the body it sends is \<open>t\<close> itself; the only
  event is that one provider call.
\<close>

theorem C2_success_verbatim:
  assumes "property (body rq) ''prompt'' = Inr p"
      and "truthy p"
      and "property (body rq) ''history'' = Inr h"
      and "provider (chatSession srv p (if truthy h then h else JArr [])) w = (Returns t, w')"
  shows "handleChatRequest provider srv rq w =
           (Responded \<lparr>status = 200, send = t\<rparr>,
            [ProviderCall (chatSession srv p (if truthy h then h else JArr []))], w')"
  using assms by (rule handle_Returns)

theorem C2_success_verbatim_witness:
  "handleChatRequest (stub_returning ''Hi there!'') \<lparr>genai = ''key''\<rparr>
       \<lparr>body = JObj [(''prompt'', JStr ''Hello''), (''history'', JArr [])]\<rparr> () =
     (Responded \<lparr>status = 200, send = ''Hi there!''\<rparr>,
      [ProviderCall (chatSession \<lparr>genai = ''key''\<rparr> (JStr ''Hello'') (JArr []))], ())"
proof -
  let ?rq = "\<lparr>body = JObj [(''prompt'', JStr ''Hello''), (''history'', JArr [])]\<rparr>"
  have a: "property (body ?rq) ''prompt'' = Inr (JStr ''Hello'')"
    by simp
  have b: "truthy (JStr ''Hello'')"
    by simp
  have c: "property (body ?rq) ''history'' = Inr (JArr [])"
    by simp
  have d: "stub_returning ''Hi there!''
      (chatSession \<lparr>genai = ''key''\<rparr> (JStr ''Hello'') (if truthy (JArr []) then JArr [] else JArr []))
      () = (Returns ''Hi there!'', ())"
    by (simp add: stub_returning_def)
  show ?thesis
    using C2_success_verbatim
        [where provider = "stub_returning ''Hi there!''" and w = "()", OF a b c d]
    by simp
qed

text \<open>
  C3: when the prompt is accepted and the provider call throws, whatever the value \<open>err\<close>
  thrown (a network error, an error of the provider, a response that cannot be read, a
  timeout raised by the client), the handler answers 500 with the fixed message. The
  value thrown goes to \<^verbatim>\<open>console.error\<close> and the response does not depend on it.
\<close>

theorem C3_failure_generic:
  assumes "property (body rq) ''prompt'' = Inr p"
      and "truthy p"
      and "property (body rq) ''history'' = Inr h"
      and "provider (chatSession srv p (if truthy h then h else JArr [])) w = (Throws err, w')"
  shows "handleChatRequest provider srv rq w =
           (Responded \<lparr>status = 500,
                       send = ''Error processing request. Check server logs for details.''\<rparr>,
            [ProviderCall (chatSession srv p (if truthy h then h else JArr [])),
             ConsoleError ''Error during AI model interaction:'' err], w')"
  using assms by (rule handle_Throws)

theorem C3_failure_generic_witness:
  "handleChatRequest (stub_throwing ''ECONNRESET'') \<lparr>genai = ''key''\<rparr>
       \<lparr>body = JObj [(''prompt'', JStr ''Hi'')]\<rparr> () =
     (Responded \<lparr>status = 500,
                 send = ''Error processing request. Check server logs for details.''\<rparr>,
      [ProviderCall (chatSession \<lparr>genai = ''key''\<rparr> (JStr ''Hi'') (JArr [])),
       ConsoleError ''Error during AI model interaction:'' ''ECONNRESET''], ())"
proof -
  let ?rq = "\<lparr>body = JObj [(''prompt'', JStr ''Hi'')]\<rparr>"
  have a: "property (body ?rq) ''prompt'' = Inr (JStr ''Hi'')"
    by simp
  have b: "truthy (JStr ''Hi'')"
    by simp
  have c: "property (body ?rq) ''history'' = Inr JUndefined"
    by simp
  have d: "stub_throwing ''ECONNRESET''
      (chatSession \<lparr>genai = ''key''\<rparr> (JStr ''Hi'') (if truthy JUndefined then JUndefined else JArr []))
      () = (Throws ''ECONNRESET'', ())"
    by (simp add: stub_throwing_def)
  show ?thesis
    using C3_failure_generic
        [where provider = "stub_throwing ''ECONNRESET''" and w = "()", OF a b c d]
    by simp
qed

section \<open>The history default\<close>

text \<open>
  A history that is absent or otherwise falsy (\<^verbatim>\<open>null\<close>, \<^verbatim>\<open>false\<close>, zero, the empty string)
  is replaced by the empty array before the provider is called.
\<close>

lemma falsy_history_defaults:
  assumes "property (body rq) ''prompt'' = Inr p"
      and "truthy p"
      and "property (body rq) ''history'' = Inr h"
      and "\<not> truthy h"
  shows "calls (fst (snd (handleChatRequest provider srv rq w))) = [chatSession srv p (JArr [])]"
  using assms calls_run [of provider srv p "JArr []" w]
  by (auto simp: handle_truthy split: prod.splits option.splits)

text \<open>
  C4 at a history that is not an array but is truthy, the string \<^verbatim>\<open>"abc"\<close>: the operator
  \<^verbatim>\<open>||\<close> of line 79 keeps it, so the provider is called with the string as history. A
  provider that refuses such a history makes the request fail with 500, while the same
  request with the empty array as history succeeds.
\<close>

theorem C4_truthy_non_array_history_kept:
  "handleChatRequest stub_strict \<lparr>genai = ''key''\<rparr>
       \<lparr>body = JObj [(''prompt'', JStr ''Hi''), (''history'', JStr ''abc'')]\<rparr> () =
     (Responded \<lparr>status = 500,
                 send = ''Error processing request. Check server logs for details.''\<rparr>,
      [ProviderCall (chatSession \<lparr>genai = ''key''\<rparr> (JStr ''Hi'') (JStr ''abc'')),
       ConsoleError ''Error during AI model interaction:'' ''history is not an array''], ()) \<and>
   handleChatRequest stub_strict \<lparr>genai = ''key''\<rparr>
       \<lparr>body = JObj [(''prompt'', JStr ''Hi''), (''history'', JArr [])]\<rparr> () =
     (Responded \<lparr>status = 200, send = ''ok''\<rparr>,
      [ProviderCall (chatSession \<lparr>genai = ''key''\<rparr> (JStr ''Hi'') (JArr []))], ())"
  by (simp add: handleChatRequest_def run_def stub_strict_def chatSession_def)

section \<open>Startup\<close>

text \<open>
  C5: when \<^verbatim>\<open>AI_KEY\<close> is not set (or is set to the empty string, which the code treats
  alike), the process writes its two diagnostic lines and exits with status 1, which is
  not zero; it never reaches \<^verbatim>\<open>app.listen\<close> and builds no client. When \<^verbatim>\<open>AI_KEY\<close> holds a
  key, the process listens on port 8080 with a client made from that key and does not
  exit.
\<close>

theorem C5_startup:
  "((env ''AI_KEY'' = None \<or> env ''AI_KEY'' = Some []) \<longrightarrow>
      fst (startup env) =
        [StderrLine ''Error: AI_KEY environment variable is not set.'',
         StderrLine ''Please set the AI_KEY environment variable with your Google AI API key.'',
         ProcessExit 1] \<and>
      (\<forall>port. AppListen port \<notin> set (fst (startup env))) \<and>
      snd (startup env) = None) \<and>
   (\<forall>k. env ''AI_KEY'' = Some k \<and> k \<noteq> [] \<longrightarrow>
      AppListen 8080 \<in> set (fst (startup env)) \<and>
      (\<forall>code. ProcessExit code \<notin> set (fst (startup env))) \<and>
      snd (startup env) = Some \<lparr>genai = k\<rparr>)"
  by (auto simp: startup_def PORT_def)

theorem C5_startup_witness:
  "fst (startup Map.empty) =
     [StderrLine ''Error: AI_KEY environment variable is not set.'',
      StderrLine ''Please set the AI_KEY environment variable with your Google AI API key.'',
      ProcessExit 1] \<and>
   startup [''AI_KEY'' \<mapsto> ''secret''] =
     ([AppListen 8080, StdoutLine ''Server is running on http://localhost:8080''],
      Some \<lparr>genai = ''secret''\<rparr>)"
  using C5_startup [of Map.empty] C5_startup [of "[''AI_KEY'' \<mapsto> ''secret'']"]
  by (simp add: startup_def PORT_def)

section \<open>Containment of failures\<close>

text \<open>
  C6: for a request whose prompt is accepted, the handler never ends by throwing; the
  events of the request hold exactly one provider call, whatever the provider answers
  (a failed call is not repeated); and when the provider call throws, \<^verbatim>\<open>run\<close> returns
  the failure value \<^verbatim>\<open>{ Response: false }\<close>.
\<close>

theorem C6_failures_contained:
  assumes "property (body rq) ''prompt'' = Inr p"
      and "truthy p"
  shows "(\<forall>e. fst (handleChatRequest provider srv rq w) \<noteq> Rejected e) \<and>
         length (calls (fst (snd (handleChatRequest provider srv rq w)))) = 1 \<and>
         (\<forall>h err w'. provider (chatSession srv p h) w = (Throws err, w') \<longrightarrow>
            fst (run provider srv p h w) = Some \<lparr>Response = False, text' = None\<rparr>)"
proof -
  from assms(1) obtain h where h: "property (body rq) ''history'' = Inr h"
    using property_history by blast
  let ?h = "if truthy h then h else JArr []"
  have eq: "handleChatRequest provider srv rq w =
      (case run provider srv p ?h w of
         (None, evs, w') \<Rightarrow> (Suspended, evs, w')
       | (Some r, evs, w') \<Rightarrow>
           if Response r
           then (Responded \<lparr>status = 200,
                            send = (case text' r of Some t \<Rightarrow> t | None \<Rightarrow> [])\<rparr>, evs, w')
           else (Responded
                   \<lparr>status = 500,
                    send = ''Error processing request. Check server logs for details.''\<rparr>,
                 evs, w'))"
    using assms h by (rule handle_truthy)
  have 1: "\<forall>e. fst (handleChatRequest provider srv rq w) \<noteq> Rejected e"
    unfolding eq by (simp split: prod.splits option.splits)
  have "calls (fst (snd (handleChatRequest provider srv rq w))) =
      calls (fst (snd (run provider srv p ?h w)))"
    unfolding eq by (simp split: prod.splits option.splits)
  then have 2: "length (calls (fst (snd (handleChatRequest provider srv rq w)))) = 1"
    by (simp add: calls_run)
  have 3: "\<forall>h err w'. provider (chatSession srv p h) w = (Throws err, w') \<longrightarrow>
      fst (run provider srv p h w) = Some \<lparr>Response = False, text' = None\<rparr>"
    by (simp add: run_Throws)
  from 1 2 3 show ?thesis by blast
qed

theorem C6_failures_contained_witness:
  "fst (handleChatRequest (stub_throwing ''quota exceeded'') \<lparr>genai = ''key''\<rparr>
       \<lparr>body = JObj [(''prompt'', JStr ''Hi''), (''history'', JArr [])]\<rparr> ()) \<noteq>
     Rejected TypeError \<and>
   length (calls (fst (snd (handleChatRequest (stub_throwing ''quota exceeded'')
       \<lparr>genai = ''key''\<rparr>
       \<lparr>body = JObj [(''prompt'', JStr ''Hi''), (''history'', JArr [])]\<rparr> ())))) = 1 \<and>
   fst (run (stub_throwing ''quota exceeded'') \<lparr>genai = ''key''\<rparr> (JStr ''Hi'') (JArr []) ()) =
     Some \<lparr>Response = False, text' = None\<rparr>"
proof -
  let ?rq = "\<lparr>body = JObj [(''prompt'', JStr ''Hi''), (''history'', JArr [])]\<rparr>"
  have a: "property (body ?rq) ''prompt'' = Inr (JStr ''Hi'')"
    by simp
  have b: "truthy (JStr ''Hi'')"
    by simp
  show ?thesis
    using C6_failures_contained
        [where provider = "stub_throwing ''quota exceeded''" and w = "()"
           and srv = "\<lparr>genai = ''key''\<rparr>", OF a b]
    by (simp add: stub_throwing_def)
qed

section \<open>The fixed configuration\<close>

text \<open>
  C7: every provider call of every request, whatever the body, the provider and the
  world, carries the same model name, the same system instruction and the constant
  \<open>generationConfig\<close>, whose fields are temperature 0, topP 0.95, topK 64 and the output
  format \<^verbatim>\<open>text/plain\<close>; the client is the one made at startup. The handler has no way
  to change them: they are constants, and it returns no new configuration.
\<close>

theorem C7_constant_configuration:
  "\<forall>c \<in> set (calls (fst (snd (handleChatRequest provider srv rq w)))).
      client c = genai srv \<and>
      model c = ''gemini-1.5-flash'' \<and>
      systemInstruction c = ''Make every response very short,maximum 150 characters length'' \<and>
      chatConfig c = generationConfig \<and>
      temperature generationConfig = 0 \<and>
      topP generationConfig = 95 / 100 \<and>
      topK generationConfig = 64 \<and>
      responseMimeType generationConfig = ''text/plain''"
  by (auto simp: handleChatRequest_def run_def Let_def chatSession_def generationConfig_def
      split: sum.splits prod.splits option.splits outcome.splits)

theorem C7_constant_configuration_witness:
  "map chatConfig (calls (fst (snd (handleChatRequest (stub_returning ''Hi there!'')
       \<lparr>genai = ''key''\<rparr> \<lparr>body = JObj [(''prompt'', JStr ''Hello'')]\<rparr> ())))) =
     [\<lparr>temperature = 0, topP = 95 / 100, topK = 64, responseMimeType = ''text/plain''\<rparr>] \<and>
   map model (calls (fst (snd (handleChatRequest (stub_throwing ''offline'')
       \<lparr>genai = ''key''\<rparr>
       \<lparr>body = JObj [(''prompt'', JStr ''Bye''), (''history'', JStr ''abc'')]\<rparr> ())))) =
     [''gemini-1.5-flash'']"
  using C7_constant_configuration
      [of "stub_returning ''Hi there!''" "\<lparr>genai = ''key''\<rparr>"
          "\<lparr>body = JObj [(''prompt'', JStr ''Hello'')]\<rparr>" "()"]
    C7_constant_configuration
      [of "stub_throwing ''offline''" "\<lparr>genai = ''key''\<rparr>"
          "\<lparr>body = JObj [(''prompt'', JStr ''Bye''), (''history'', JStr ''abc'')]\<rparr>" "()"]
  by (simp add: handleChatRequest_def run_def stub_returning_def stub_throwing_def
      chatSession_def generationConfig_def)

section \<open>Statelessness\<close>

text \<open>
  C8: the handler takes the constants of the process, the request and the state of the
  outside world, and the world reaches it only through the provider's answer. Take one
  request handled in two worlds \<open>wa\<close> and \<open>wb\<close>; issuing the request twice in a row is the
  case where \<open>wb\<close> is the world \<open>wa'\<close> that the first run left. Both runs make the same
  provider calls. For an accepted prompt that is exactly one call in each run (the second
  is not served from a cache or merged with the first), and in both calls the history
  handed to the provider is the history of the request's own body, the very value the
  caller sent when it is truthy and the empty array otherwise, with the request's prompt
  as message: nothing of an earlier exchange is added and nothing the caller sent is
  dropped. If the provider answers in \<open>wb\<close> as it does in \<open>wa\<close>, the two runs end alike with
  the same events.
\<close>

theorem C8_stateless:
  assumes "handleChatRequest provider srv rq wa = (ra, evsa, wa')"
      and "handleChatRequest provider srv rq wb = (rb, evsb, wb')"
  shows "calls evsb = calls evsa \<and>
         (\<forall>p h. property (body rq) ''prompt'' = Inr p \<and> truthy p \<and>
                property (body rq) ''history'' = Inr h \<longrightarrow>
                calls evsa = [chatSession srv p (if truthy h then h else JArr [])] \<and>
                (\<exists>ca cb. calls evsa = [ca] \<and> calls evsb = [cb] \<and>
                   history ca = (if truthy h then h else JArr []) \<and>
                   history cb = (if truthy h then h else JArr []) \<and>
                   message ca = p \<and> message cb = p)) \<and>
         ((\<forall>c. fst (provider c wb) = fst (provider c wa)) \<longrightarrow> rb = ra \<and> evsb = evsa)"
proof (cases "property (body rq) ''prompt''")
  case (Inl e)
  with assms show ?thesis
    by (auto simp: handleChatRequest_def)
next
  case (Inr p)
  then obtain h where h: "property (body rq) ''history'' = Inr h"
    using property_history by blast
  show ?thesis
  proof (cases "truthy p")
    case False
    with Inr assms show ?thesis
      by (auto simp: handle_falsy)
  next
    case True
    let ?h = "if truthy h then h else JArr []"
    let ?c = "chatSession srv p ?h"
    have a: "calls evsa = [?c]"
      using assms(1) calls_run [of provider srv p ?h wa]
      by (auto simp: handle_truthy [OF Inr True h] split: prod.splits option.splits if_splits)
    have b: "calls evsb = [?c]"
      using assms(2) calls_run [of provider srv p ?h wb]
      by (auto simp: handle_truthy [OF Inr True h] split: prod.splits option.splits if_splits)
    have hm: "history ?c = ?h \<and> message ?c = p"
      by (simp add: chatSession_def)
    have c: "rb = ra \<and> evsb = evsa" if "fst (provider ?c wb) = fst (provider ?c wa)"
      using assms that
      by (auto simp: handle_truthy [OF Inr True h] run_def Let_def
          split: prod.splits option.splits outcome.splits if_splits)
    from a b c hm Inr h show ?thesis
      by auto
  qed
qed

theorem C8_stateless_witness:
  "fst (handleChatRequest (stub_counting ''Hi there!'') \<lparr>genai = ''key''\<rparr>
       \<lparr>body = JObj [(''prompt'', JStr ''Hello''),
                      (''history'',
                       JArr [JObj [(''role'', JStr ''user''),
                                   (''parts'', JArr [JObj [(''text'', JStr ''Hi'')]])]])]\<rparr>
       0) = Responded \<lparr>status = 200, send = ''Hi there!''\<rparr> \<and>
   map history (calls (fst (snd (handleChatRequest (stub_counting ''Hi there!'')
       \<lparr>genai = ''key''\<rparr>
       \<lparr>body = JObj [(''prompt'', JStr ''Hello''),
                      (''history'',
                       JArr [JObj [(''role'', JStr ''user''),
                                   (''parts'', JArr [JObj [(''text'', JStr ''Hi'')]])]])]\<rparr>
       0)))) =
     [JArr [JObj [(''role'', JStr ''user''), (''parts'', JArr [JObj [(''text'', JStr ''Hi'')]])]]] \<and>
   snd (snd (handleChatRequest (stub_counting ''Hi there!'') \<lparr>genai = ''key''\<rparr>
       \<lparr>body = JObj [(''prompt'', JStr ''Hello''),
                      (''history'',
                       JArr [JObj [(''role'', JStr ''user''),
                                   (''parts'', JArr [JObj [(''text'', JStr ''Hi'')]])]])]\<rparr>
       0)) = 1 \<and>
   fst (handleChatRequest (stub_counting ''Hi there!'') \<lparr>genai = ''key''\<rparr>
       \<lparr>body = JObj [(''prompt'', JStr ''Hello''),
                      (''history'',
                       JArr [JObj [(''role'', JStr ''user''),
                                   (''parts'', JArr [JObj [(''text'', JStr ''Hi'')]])]])]\<rparr>
       1) = Responded \<lparr>status = 200, send = ''Hi there!''\<rparr> \<and>
   map history (calls (fst (snd (handleChatRequest (stub_counting ''Hi there!'')
       \<lparr>genai = ''key''\<rparr>
       \<lparr>body = JObj [(''prompt'', JStr ''Hello''),
                      (''history'',
                       JArr [JObj [(''role'', JStr ''user''),
                                   (''parts'', JArr [JObj [(''text'', JStr ''Hi'')]])]])]\<rparr>
       1)))) =
     [JArr [JObj [(''role'', JStr ''user''), (''parts'', JArr [JObj [(''text'', JStr ''Hi'')]])]]] \<and>
   snd (snd (handleChatRequest (stub_counting ''Hi there!'') \<lparr>genai = ''key''\<rparr>
       \<lparr>body = JObj [(''prompt'', JStr ''Hello''),
                      (''history'',
                       JArr [JObj [(''role'', JStr ''user''),
                                   (''parts'', JArr [JObj [(''text'', JStr ''Hi'')]])]])]\<rparr>
       1)) = 2"
proof -
  let ?H = "JArr [JObj [(''role'', JStr ''user''), (''parts'', JArr [JObj [(''text'', JStr ''Hi'')]])]]"
  let ?rq = "\<lparr>body = JObj [(''prompt'', JStr ''Hello''), (''history'', ?H)]\<rparr>"
  let ?P = "stub_counting ''Hi there!''"
  let ?S = "\<lparr>genai = ''key''\<rparr>"
  obtain ra evsa wa' where a: "handleChatRequest ?P ?S ?rq 0 = (ra, evsa, wa')"
    by (cases "handleChatRequest ?P ?S ?rq 0")
  obtain rb evsb wb' where b: "handleChatRequest ?P ?S ?rq 1 = (rb, evsb, wb')"
    by (cases "handleChatRequest ?P ?S ?rq 1")
  have p: "property (body ?rq) ''prompt'' = Inr (JStr ''Hello'')"
    by simp
  have t: "truthy (JStr ''Hello'')"
    by simp
  have h: "property (body ?rq) ''history'' = Inr ?H"
    by simp
  have same: "\<forall>c. fst (?P c 1) = fst (?P c 0)"
    by (simp add: stub_counting_def)
  note main = C8_stateless [OF a b]
  from main p t h obtain ca cb where
    cs: "calls evsa = [ca]" "calls evsb = [cb]"
        "history ca = (if truthy ?H then ?H else JArr [])"
        "history cb = (if truthy ?H then ?H else JArr [])"
    by blast
  from main same have eq: "rb = ra" "evsb = evsa"
    by blast+
  have ra: "ra = Responded \<lparr>status = 200, send = ''Hi there!''\<rparr>"
    using a handle_Returns [OF p t h, of ?P ?S 0 "''Hi there!''" 1]
    by (simp add: stub_counting_def)
  have wa: "wa' = 1"
    using a handle_Returns [OF p t h, of ?P ?S 0 "''Hi there!''" 1]
    by (simp add: stub_counting_def)
  have wb: "wb' = 2"
    using b handle_Returns [OF p t h, of ?P ?S 1 "''Hi there!''" 2]
    by (simp add: stub_counting_def)
  show ?thesis
    unfolding a b using cs eq ra wa wb by simp
qed

section \<open>The response mapping\<close>




section \<open>The result object of \<^verbatim>\<open>run\<close>\<close>

text \<open>
  C10: whenever \<^verbatim>\<open>run\<close> returns a result, the result has a text exactly when its
  \<^verbatim>\<open>Response\<close> flag is true; when the provider call throws, the result is
  \<^verbatim>\<open>{ Response: false }\<close> with no text; and \<^verbatim>\<open>run\<close> does return whenever the provider call
  settles.
\<close>

theorem C10_text_iff_Response:
  "(\<forall>r. fst (run provider srv p h w) = Some r \<longrightarrow> (text' r \<noteq> None) = Response r) \<and>
   (\<forall>err w'. provider (chatSession srv p h) w = (Throws err, w') \<longrightarrow>
      fst (run provider srv p h w) = Some \<lparr>Response = False, text' = None\<rparr>) \<and>
   (fst (provider (chatSession srv p h) w) \<noteq> Pending \<longrightarrow>
      (\<exists>r. fst (run provider srv p h w) = Some r))"
  by (auto simp: run_def Let_def split: prod.splits outcome.splits)

theorem C10_text_iff_Response_witness:
  "fst (run (stub_returning ''Hi there!'') \<lparr>genai = ''key''\<rparr> (JStr ''Hello'') (JArr []) ()) =
     Some \<lparr>Response = True, text' = Some ''Hi there!''\<rparr> \<and>
   fst (run (stub_throwing ''offline'') \<lparr>genai = ''key''\<rparr> (JStr ''Hello'') (JArr []) ()) =
     Some \<lparr>Response = False, text' = None\<rparr>"
  using C10_text_iff_Response
      [of "stub_returning ''Hi there!''" "\<lparr>genai = ''key''\<rparr>" "JStr ''Hello''" "JArr []" "()"]
    C10_text_iff_Response
      [of "stub_throwing ''offline''" "\<lparr>genai = ''key''\<rparr>" "JStr ''Hello''" "JArr []" "()"]
  by (simp add: run_def stub_returning_def stub_throwing_def)

end
